theory Spec2Isabelle
  imports Main "HOL-Library.Sublist" "HOL-Library.Monad_Syntax" "HOL-Library.Char_ord"
begin

section \<open>Python strings\<close>

text \<open>
  Python's \<^verbatim>\<open>str\<close> operations used by the agents, on \<^typ>\<open>string\<close>. Indices are
  \<^typ>\<open>int\<close>, as in Python, because \<^verbatim>\<open>find\<close> and \<^verbatim>\<open>rfind\<close> answer \<open>-1\<close>
  when the needle does not occur.
\<close>

definition quote :: char where
  "quote = CHR 0x27"

definition backslash :: char where
  "backslash = CHR 0x5C"

text \<open>\<^verbatim>\<open>needle in s\<close>\<close>

fun py_in :: "string \<Rightarrow> string \<Rightarrow> bool" where
  "py_in n [] = (n = [])"
| "py_in n (c # cs) = (prefix n (c # cs) \<or> py_in n cs)"

text \<open>\<^verbatim>\<open>s.find(needle)\<close>: the lowest index at which the needle starts, \<open>-1\<close> if none.\<close>

fun find_from :: "string \<Rightarrow> string \<Rightarrow> int \<Rightarrow> int" where
  "find_from n [] i = (if n = [] then i else - 1)"
| "find_from n (c # cs) i = (if prefix n (c # cs) then i else find_from n cs (i + 1))"

definition py_find :: "string \<Rightarrow> string \<Rightarrow> int" where
  "py_find s n = find_from n s 0"

text \<open>\<^verbatim>\<open>s.rfind(needle)\<close>: the highest index at which the needle starts, \<open>-1\<close> if none.\<close>

fun rfind_from :: "string \<Rightarrow> string \<Rightarrow> int \<Rightarrow> int" where
  "rfind_from n [] i = (if n = [] then i else - 1)"
| "rfind_from n (c # cs) i =
     (let r = rfind_from n cs (i + 1)
      in if 0 \<le> r then r else if prefix n (c # cs) then i else - 1)"

definition py_rfind :: "string \<Rightarrow> string \<Rightarrow> int" where
  "py_rfind s n = rfind_from n s 0"

text \<open>\<^verbatim>\<open>s[a:b]\<close>: a negative index counts from the end, and both are clamped to the string.\<close>

definition clamp_index :: "string \<Rightarrow> int \<Rightarrow> nat" where
  "clamp_index s i =
     (let n = int (length s)
      in nat (if i < 0 then max 0 (n + i) else min i n))"

definition py_slice :: "string \<Rightarrow> int \<Rightarrow> int \<Rightarrow> string" where
  "py_slice s a b = drop (clamp_index s a) (take (clamp_index s b) s)"

text \<open>
  \<^verbatim>\<open>s.replace(old, new)\<close>: the occurrences of \<open>old\<close> are replaced from the left
  and do not overlap. With an empty \<open>old\<close> Python puts \<open>new\<close> before every character
  and at the end.
\<close>

function replace_nonempty :: "string \<Rightarrow> string \<Rightarrow> string \<Rightarrow> string" where
  "replace_nonempty old new [] = []"
| "replace_nonempty old new (c # cs) =
     (if old \<noteq> [] \<and> prefix old (c # cs)
      then new @ replace_nonempty old new (drop (length old) (c # cs))
      else c # replace_nonempty old new cs)"
  by pat_completeness auto
termination
  by (relation "measure (\<lambda>(old, new, s). length s)") (auto simp: neq_Nil_conv)

definition py_replace :: "string \<Rightarrow> string \<Rightarrow> string \<Rightarrow> string" where
  "py_replace s old new =
     (if old = [] then new @ concat (map (\<lambda>c. c # new) s)
      else replace_nonempty old new s)"

text \<open>
  \<^verbatim>\<open>s.split(sep, 1)\<close> for a one-character separator: the text before the first
  separator and the text after it, or the whole string alone when it has no separator.
\<close>

definition py_split1 :: "string \<Rightarrow> char \<Rightarrow> string list" where
  "py_split1 s sep =
     (if sep \<in> set s
      then [takeWhile (\<lambda>c. c \<noteq> sep) s, tl (dropWhile (\<lambda>c. c \<noteq> sep) s)]
      else [s])"

text \<open>\<^verbatim>\<open>s.lower()\<close>, on ASCII letters.\<close>

definition lower_char :: "char \<Rightarrow> char" where
  "lower_char c =
     (if CHR ''A'' \<le> c \<and> c \<le> CHR ''Z'' then char_of (of_char c + (32::nat)) else c)"

definition py_lower :: "string \<Rightarrow> string" where
  "py_lower s = map lower_char s"

section \<open>Values, exceptions and the outside world\<close>

text \<open>
  Untyped Python values (\<^verbatim>\<open>Any\<close>, \<^verbatim>\<open>dict[str, Any]\<close>): what a tool or the
  language model hands back, and what \<^verbatim>\<open>.dict()\<close> produces. A dict is an
  association list read with \<^const>\<open>map_of\<close>.
\<close>

datatype json =
    JNull
  | JBool bool
  | JInt int
  | JStr string
  | JList "json list"
  | JDict "(string \<times> json) list"

text \<open>Python's truth value of an object (\<^verbatim>\<open>if not x\<close>).\<close>

fun truthy :: "json \<Rightarrow> bool" where
  "truthy JNull = False"
| "truthy (JBool b) = b"
| "truthy (JInt i) = (i \<noteq> 0)"
| "truthy (JStr s) = (s \<noteq> [])"
| "truthy (JList xs) = (xs \<noteq> [])"
| "truthy (JDict kvs) = (kvs \<noteq> [])"

datatype exn =
    RuntimeError string
  | AttributeError string
  | ValueError string
  | ValidationError string
  | OtherError string

text \<open>\<^verbatim>\<open>str(e)\<close>, as the f-strings and \<^verbatim>\<open>str(e)\<close> of the handlers read it.\<close>

fun exn_str :: "exn \<Rightarrow> string" where
  "exn_str (RuntimeError m) = m"
| "exn_str (AttributeError m) = m"
| "exn_str (ValueError m) = m"
| "exn_str (ValidationError m) = m"
| "exn_str (OtherError m) = m"

text \<open>
  \<^verbatim>\<open>d.get(key, default)\<close>. On a value that is not a dict the attribute lookup raises
  \<^verbatim>\<open>AttributeError\<close>: that is the value \<open>None\<close> here. Where the text of the
  exception is read afterwards, \<open>get_or_raise\<close> below gives the exception itself.
\<close>

fun dict_get :: "json \<Rightarrow> string \<Rightarrow> json \<Rightarrow> json option" where
  "dict_get (JDict kvs) k d = Some (case map_of kvs k of None \<Rightarrow> d | Some v \<Rightarrow> v)"
| "dict_get _ k d = None"

text \<open>
  \<^verbatim>\<open>a, b = xs\<close>: a list of any other length raises \<^verbatim>\<open>ValueError\<close>, the value
  \<open>None\<close> here.
\<close>

fun unpack2 :: "'a list \<Rightarrow> ('a \<times> 'a) option" where
  "unpack2 [a, b] = Some (a, b)"
| "unpack2 _ = None"

text \<open>
  What \<^verbatim>\<open>await agent.run(prompt)\<close> gives back: the object's \<^verbatim>\<open>data\<close> attribute
  and its \<^verbatim>\<open>str()\<close>. A result without the attribute makes the caller raise inside
  the same handler as a call that raises, and is an agent that raises here.
\<close>

record run_result =
  data :: json
  str :: string

text \<open>
  The Pydantic-AI agent (the language model with its tools) is outside the repository.
  A call takes the state of the outside world \<open>'w\<close> and returns either the exception
  it raised or its result, with the world after the call. Nothing is assumed about it:
  it may answer differently each time.
\<close>

record 'w agent =
  run :: "string \<Rightarrow> 'w \<Rightarrow> (exn + run_result) \<times> 'w"

section \<open>Response and request models\<close>

text \<open>
  \<^verbatim>\<open>RepoMetrics\<close> and \<^verbatim>\<open>GitHubRepository\<close> with the fields that
  \<^verbatim>\<open>_analyze_repository\<close> passes; the records keep the values as they are passed.
\<close>

record repo_metrics =
  stars :: json
  forks :: json
  watchers :: json
  open_issues :: json
  repo_size :: json
  language :: json
  default_branch :: json

record github_repository =
  name :: string
  full_name :: string
  owner :: string
  description :: json
  url :: json
  homepage :: json
  created_at :: json
  updated_at :: json
  pushed_at :: json
  metrics :: repo_metrics
  topics :: json
  license :: json
  is_fork :: json
  archived :: json

text \<open>\<^verbatim>\<open>RepoIntelResponse\<close> (src/app/models/responses.py).\<close>

record repo_intel_response =
  repositories :: "github_repository list"
  total_repos :: int
  analysis_timestamp :: int
  insights :: "string option"

text \<open>\<^verbatim>\<open>RepoIntelRequest\<close>, with the two fields the specialist agent reads.\<close>

record repo_intel_request =
  req_repositories :: "string list"
  include_metrics :: bool

text \<open>
  \<^verbatim>\<open>TechTrendsRequest\<close> and \<^verbatim>\<open>GeneralChatRequest\<close> as the manager builds them.
  \<open>None\<close> in a flag is a keyword the caller leaves out, for which the model's own
  default stands.
\<close>

record trends_request =
  query :: string
  limit :: int
  include_hn :: "bool option"
  include_brave :: "bool option"

record chat_request =
  message :: string

text \<open>
  \<^verbatim>\<open>TechTrendsResponse\<close> and \<^verbatim>\<open>GeneralChatResponse\<close>
  (src/app/models/responses.py); a trend item is kept as an untyped value.
\<close>

record trends_response =
  tr_query :: string
  tr_trends :: "json list"
  total_items :: int
  sources :: "string list"
  tr_analysis_timestamp :: int
  summary :: "string option"

record chat_response =
  response :: string
  timestamp :: int
  chat_message_type :: string

text \<open>
  \<^verbatim>\<open>CombinedAnalysisRequest\<close>, with the fields the manager reads, and
  \<^verbatim>\<open>CombinedAnalysisResponse\<close>.
\<close>

record combined_request =
  cq_query :: string
  trend_limit :: int
  auto_detect_repos :: bool

record combined_response =
  ca_query :: string
  ca_trends :: trends_response
  ca_repositories :: repo_intel_response
  correlation_analysis :: json
  recommendations :: "string list"
  ca_analysis_timestamp :: int

text \<open>
  The parts of the platform that are not in the repository's sources, taken as
  parameters: the clock, the field constraints of the models declared in
  \<^verbatim>\<open>models/schemas.py\<close> and \<^verbatim>\<open>models/requests.py\<close> (a rejected value raises
  pydantic's \<^verbatim>\<open>ValidationError\<close>), how a repository record prints inside an
  f-string, the default of \<^verbatim>\<open>include_metrics\<close>, and the environment's
  \<^verbatim>\<open>BRAVE_WEB_SEARCH_LIMIT\<close>.
\<close>

record 'w platform =
  utcnow :: "'w \<Rightarrow> int"
  repository_ok :: "github_repository \<Rightarrow> bool"
  repr_repository :: "github_repository \<Rightarrow> string"
  include_metrics_default :: bool
  repo_request_ok :: "repo_intel_request \<Rightarrow> bool"
  trends_request_ok :: "trends_request \<Rightarrow> bool"
  chat_request_ok :: "chat_request \<Rightarrow> bool"
  correlation_ok :: "json \<Rightarrow> bool"
  brave_web_search_limit :: int

section \<open>The specialist agent: output text extraction\<close>

text \<open>
  \<^verbatim>\<open>SpecialistAgent._extract_content\<close> (src/app/agents/specialist_agent.py):
  \<^verbatim>\<open>
  if "AgentRunResult(output=" in agent_result_str:
      start = agent_result_str.find("output='") + 8
      if start > 7:
          end = agent_result_str.rfind("')")
          if end > start:
              return agent_result_str[start:end].replace("\\'", "'")
  return agent_result_str
  \<close>
\<close>

definition extract_content :: "string \<Rightarrow> string" where
  "extract_content agent_result_str =
     (if py_in ''AgentRunResult(output='' agent_result_str then
        (let start = py_find agent_result_str (''output='' @ [quote]) + 8
         in if start > 7 then
              (let end = py_rfind agent_result_str [quote, CHR '')'']
               in if end > start
                  then py_replace (py_slice agent_result_str start end) [backslash, quote] [quote]
                  else agent_result_str)
            else agent_result_str)
      else agent_result_str)"

section \<open>The specialist agent: repository analysis\<close>

text \<open>
  The tool registry (\<^verbatim>\<open>MCPClientManager\<close>, in the package \<^verbatim>\<open>utils\<close>) and its
  clients are outside the sources at hand; they are taken as they are used: a lookup by
  name that answers a client or \<^verbatim>\<open>None\<close>, a probe of all servers, and a client's
  \<^verbatim>\<open>call_tool\<close>.
\<close>

record 'w mcp_client =
  call_tool :: "string \<Rightarrow> json \<Rightarrow> 'w \<Rightarrow> (exn + json) \<times> 'w"

record 'w mcp_client_manager =
  get_client :: "string \<Rightarrow> 'w mcp_client option"
  health_check_all :: "'w \<Rightarrow> (exn + json) \<times> 'w"

record 'w specialist_agent =
  agent :: "'w agent"
  sa_mcp_manager :: "'w mcp_client_manager option"
  agent_name :: string

text \<open>
  The body of the \<^verbatim>\<open>try\<close> in \<^verbatim>\<open>_analyze_repository\<close> after the agent has
  answered with a truthy \<^verbatim>\<open>data\<close>: the reads of the details and the construction
  of the record. \<open>None\<close> is an exception raised on the way (a \<^verbatim>\<open>.get\<close> on a value
  that is not a dict, or a record that the model's constraints reject).
\<close>

definition build_repository ::
  "'w platform \<Rightarrow> string \<Rightarrow> string \<Rightarrow> string \<Rightarrow> json \<Rightarrow> github_repository option" where
  "build_repository pf repo_name owner_part repo repo_details = do {
     metrics_d \<leftarrow> dict_get repo_details ''metrics'' (JDict []);
     description_v \<leftarrow> dict_get repo_details ''description'' (JStr []);
     url_v \<leftarrow> dict_get repo_details ''html_url'' (JStr (''https://github.com/'' @ repo_name));
     homepage_v \<leftarrow> dict_get repo_details ''homepage'' JNull;
     created_v \<leftarrow> dict_get repo_details ''created_at'' JNull;
     updated_v \<leftarrow> dict_get repo_details ''updated_at'' JNull;
     pushed_v \<leftarrow> dict_get repo_details ''pushed_at'' JNull;
     stars_v \<leftarrow> dict_get metrics_d ''stars'' (JInt 0);
     forks_v \<leftarrow> dict_get metrics_d ''forks'' (JInt 0);
     watchers_v \<leftarrow> dict_get metrics_d ''watchers'' (JInt 0);
     open_issues_v \<leftarrow> dict_get metrics_d ''open_issues'' (JInt 0);
     size_v \<leftarrow> dict_get metrics_d ''size'' (JInt 0);
     language_v \<leftarrow> dict_get metrics_d ''language'' JNull;
     default_branch_v \<leftarrow> dict_get repo_details ''default_branch'' (JStr ''main'');
     topics_v \<leftarrow> dict_get repo_details ''topics'' (JList []);
     license_d \<leftarrow> dict_get repo_details ''license'' (JDict []);
     license_v \<leftarrow> dict_get license_d ''name'' JNull;
     is_fork_v \<leftarrow> dict_get repo_details ''fork'' (JBool False);
     archived_v \<leftarrow> dict_get repo_details ''archived'' (JBool False);
     let r = \<lparr> name = repo, full_name = repo_name, owner = owner_part,
               description = description_v, url = url_v, homepage = homepage_v,
               created_at = created_v, updated_at = updated_v, pushed_at = pushed_v,
               metrics = \<lparr> stars = stars_v, forks = forks_v, watchers = watchers_v,
                           open_issues = open_issues_v, repo_size = size_v,
                           language = language_v, default_branch = default_branch_v \<rparr>,
               topics = topics_v, license = license_v, is_fork = is_fork_v,
               archived = archived_v \<rparr>;
     if repository_ok pf r then Some r else None
   }"

text \<open>
  \<^verbatim>\<open>SpecialistAgent._analyze_repository\<close>:
  \<^verbatim>\<open>
  if "/" not in repo_name:
      return None
  owner, repo = repo_name.split("/", 1)
  details_result = await self.agent.run(f"Get GitHub repository details for {owner}/{repo}")
  repo_details = details_result.data
  if not repo_details:
      return None
  \<close>
  and then the construction of the record. The whole body is under
  \<^verbatim>\<open>except Exception: ... return None\<close>, so the method returns \<open>None\<close> or a record and
  never raises. The parameter \<^verbatim>\<open>include_metrics\<close> is not read by the body.
\<close>

definition analyze_repository ::
  "'w platform \<Rightarrow> 'w specialist_agent \<Rightarrow> string \<Rightarrow> bool \<Rightarrow> 'w
     \<Rightarrow> github_repository option \<times> 'w" where
  "analyze_repository pf self repo_name incl w =
     (if \<not> py_in ''/'' repo_name then (None, w)
      else (case unpack2 (py_split1 repo_name CHR ''/'') of
              None \<Rightarrow> (None, w)
            | Some (owner_part, repo) \<Rightarrow>
                (case run (agent self)
                        (''Get GitHub repository details for '' @ owner_part @ ''/'' @ repo) w of
                   (Inl e, w') \<Rightarrow> (None, w')
                 | (Inr details_result, w') \<Rightarrow>
                     (let repo_details = data details_result
                      in if \<not> truthy repo_details then (None, w')
                         else (build_repository pf repo_name owner_part repo repo_details, w')))))"

text \<open>
  The loop of \<^verbatim>\<open>process_request\<close>:
  \<^verbatim>\<open>
  for repo_name in request.repositories[:10]:
      repo_analysis = await self._analyze_repository(repo_name, request.include_metrics)
      if repo_analysis:
          repo_data.append(repo_analysis)
  \<close>
  over the names still to visit, with \<^verbatim>\<open>repo_data\<close> so far.
\<close>

fun analyze_loop ::
  "'w platform \<Rightarrow> 'w specialist_agent \<Rightarrow> bool \<Rightarrow> string list \<Rightarrow> github_repository list \<Rightarrow> 'w
     \<Rightarrow> github_repository list \<times> 'w" where
  "analyze_loop pf self incl [] repo_data w = (repo_data, w)"
| "analyze_loop pf self incl (repo_name # rest) repo_data w =
     (case analyze_repository pf self repo_name incl w of
        (None, w') \<Rightarrow> analyze_loop pf self incl rest repo_data w'
      | (Some repo_analysis, w') \<Rightarrow>
          analyze_loop pf self incl rest (repo_data @ [repo_analysis]) w')"

text \<open>How the list \<^verbatim>\<open>repo_data\<close> prints inside the f-string.\<close>

fun join_comma :: "string list \<Rightarrow> string" where
  "join_comma [] = []"
| "join_comma [x] = x"
| "join_comma (x # y # ys) = x @ '', '' @ join_comma (y # ys)"

definition repr_list :: "'w platform \<Rightarrow> github_repository list \<Rightarrow> string" where
  "repr_list pf rs = ''['' @ join_comma (map (repr_repository pf) rs) @ '']''"

definition analysis_prompt :: "'w platform \<Rightarrow> github_repository list \<Rightarrow> string" where
  "analysis_prompt pf repo_data =
     [CHR 0x0A] @ replicate 16 CHR '' ''
     @ ''Analyze the following GitHub repositories: '' @ repr_list pf repo_data
     @ [CHR 0x0A] @ replicate 16 CHR '' ''
     @ ''Provide a comprehensive analysis of their health, community, and technology.''
     @ [CHR 0x0A] @ replicate 16 CHR '' ''"

text \<open>
  The body of the \<^verbatim>\<open>try\<close> of \<^verbatim>\<open>process_request\<close>; \<open>Inl\<close> is an exception that
  leaves it.
\<close>

definition process_request_try ::
  "'w platform \<Rightarrow> 'w specialist_agent \<Rightarrow> repo_intel_request \<Rightarrow> 'w
     \<Rightarrow> (exn + repo_intel_response) \<times> 'w" where
  "process_request_try pf self request w =
     (case analyze_loop pf self (include_metrics request)
             (take 10 (req_repositories request)) [] w of
        (repo_data, w1) \<Rightarrow>
          if repo_data \<noteq> [] then
            (case run (agent self) (analysis_prompt pf repo_data) w1 of
               (Inl e, w2) \<Rightarrow> (Inl e, w2)
             | (Inr analysis_result, w2) \<Rightarrow>
                 (Inr \<lparr> repositories = repo_data,
                        total_repos = int (length repo_data),
                        analysis_timestamp = utcnow pf w2,
                        insights = Some (extract_content (str analysis_result)) \<rparr>, w2))
          else
            (Inr \<lparr> repositories = repo_data,
                   total_repos = int (length repo_data),
                   analysis_timestamp = utcnow pf w1,
                   insights = Some ''No repositories could be analyzed.'' \<rparr>, w1))"

text \<open>
  \<^verbatim>\<open>SpecialistAgent.process_request\<close>: the \<^verbatim>\<open>try\<close> with its handler
  \<^verbatim>\<open>
  except Exception as e:
      return RepoIntelResponse(repositories=[], total_repos=0,
          analysis_timestamp=datetime.utcnow(), insights=f"An error occurred: {e}")
  \<close>
\<close>

definition process_request ::
  "'w platform \<Rightarrow> 'w specialist_agent \<Rightarrow> repo_intel_request \<Rightarrow> 'w
     \<Rightarrow> repo_intel_response \<times> 'w" where
  "process_request pf self request w =
     (case process_request_try pf self request w of
        (Inr resp, w') \<Rightarrow> (resp, w')
      | (Inl e, w') \<Rightarrow>
          (\<lparr> repositories = [],
             total_repos = 0,
             analysis_timestamp = utcnow pf w',
             insights = Some (''An error occurred: '' @ exn_str e) \<rparr>, w'))"

text \<open>\<^verbatim>\<open>SpecialistAgent.health_check\<close>\<close>

definition specialist_health_check :: "'w platform \<Rightarrow> 'w specialist_agent \<Rightarrow> 'w \<Rightarrow> json" where
  "specialist_health_check pf self w =
     (let status = (if Option.is_none (sa_mcp_manager self) then ''degraded'' else ''healthy'');
          details = (if Option.is_none (sa_mcp_manager self) then ''MCP manager not initialized''
                     else ''Agent '' @ agent_name self @ '' is operational'')
      in JDict [(''status'', JStr status), (''details'', JStr details),
                (''timestamp'', JInt (utcnow pf w))])"

section \<open>Serialised models\<close>

text \<open>\<^verbatim>\<open>.dict()\<close> of the response models: one key for each field, in the order of declaration.\<close>

definition metrics_dict :: "repo_metrics \<Rightarrow> json" where
  "metrics_dict m =
     JDict [(''stars'', stars m), (''forks'', forks m), (''watchers'', watchers m),
            (''open_issues'', open_issues m), (''size'', repo_size m),
            (''language'', language m), (''default_branch'', default_branch m)]"

definition repository_dict :: "github_repository \<Rightarrow> json" where
  "repository_dict r =
     JDict [(''name'', JStr (name r)), (''full_name'', JStr (full_name r)),
            (''owner'', JStr (owner r)), (''description'', description r),
            (''url'', url r), (''homepage'', homepage r),
            (''created_at'', created_at r), (''updated_at'', updated_at r),
            (''pushed_at'', pushed_at r), (''metrics'', metrics_dict (metrics r)),
            (''topics'', topics r), (''license'', license r),
            (''is_fork'', is_fork r), (''archived'', archived r)]"

definition opt_str :: "string option \<Rightarrow> json" where
  "opt_str v = (case v of None \<Rightarrow> JNull | Some s \<Rightarrow> JStr s)"

definition repo_intel_dict :: "repo_intel_response \<Rightarrow> json" where
  "repo_intel_dict r =
     JDict [(''repositories'', JList (map repository_dict (repositories r))),
            (''total_repos'', JInt (total_repos r)),
            (''analysis_timestamp'', JInt (analysis_timestamp r)),
            (''insights'', opt_str (insights r))]"

definition trends_dict :: "trends_response \<Rightarrow> json" where
  "trends_dict t =
     JDict [(''query'', JStr (tr_query t)), (''trends'', JList (tr_trends t)),
            (''total_items'', JInt (total_items t)),
            (''sources'', JList (map JStr (sources t))),
            (''analysis_timestamp'', JInt (tr_analysis_timestamp t)),
            (''summary'', opt_str (summary t))]"

definition chat_dict :: "chat_response \<Rightarrow> json" where
  "chat_dict c =
     JDict [(''response'', JStr (response c)), (''timestamp'', JInt (timestamp c)),
            (''message_type'', JStr (chat_message_type c))]"

text \<open>\<^verbatim>\<open>key in d\<close> for a dict.\<close>

fun has_key :: "json \<Rightarrow> string \<Rightarrow> bool" where
  "has_key (JDict kvs) k = (k \<in> set (map fst kvs))"
| "has_key _ k = False"

section \<open>Calls that may raise\<close>

text \<open>
  A call that reads or changes the outside world and either raises or returns. The next
  step runs only after a return, as the statements of a Python body do.
\<close>

type_synonym ('w, 'a) call = "'w \<Rightarrow> (exn + 'a) \<times> 'w"

definition returns :: "'a \<Rightarrow> ('w, 'a) call" where
  "returns x w = (Inr x, w)"

definition raises :: "exn \<Rightarrow> ('w, 'a) call" where
  "raises e w = (Inl e, w)"

definition and_then :: "('w, 'a) call \<Rightarrow> ('a \<Rightarrow> ('w, 'b) call) \<Rightarrow> ('w, 'b) call" where
  "and_then m f w = (case m w of (Inl e, w') \<Rightarrow> (Inl e, w') | (Inr x, w') \<Rightarrow> f x w')"

text \<open>The name Python prints for the type of a value, and \<^verbatim>\<open>.get\<close> with its exception.\<close>

fun type_name :: "json \<Rightarrow> string" where
  "type_name JNull = ''NoneType''"
| "type_name (JBool b) = ''bool''"
| "type_name (JInt i) = ''int''"
| "type_name (JStr s) = ''str''"
| "type_name (JList xs) = ''list''"
| "type_name (JDict kvs) = ''dict''"

definition get_or_raise :: "json \<Rightarrow> string \<Rightarrow> json \<Rightarrow> exn + json" where
  "get_or_raise v k d =
     (case dict_get v k d of
        Some x \<Rightarrow> Inr x
      | None \<Rightarrow> Inl (AttributeError ([quote] @ type_name v @ [quote]
                  @ '' object has no attribute '' @ [quote] @ ''get'' @ [quote])))"

section \<open>Building the request models\<close>

text \<open>
  \<^verbatim>\<open>RepoIntelRequest(repositories=v)\<close>: \<open>v\<close> has to be a list of strings that the
  model's constraints accept, \<^verbatim>\<open>include_metrics\<close> takes its default. The wording of
  pydantic's message is not modelled.
\<close>

fun str_items :: "json list \<Rightarrow> string list option" where
  "str_items [] = Some []"
| "str_items (JStr s # vs) = map_option ((#) s) (str_items vs)"
| "str_items (_ # vs) = None"

definition RepoIntelRequest_new :: "'w platform \<Rightarrow> json \<Rightarrow> exn + repo_intel_request" where
  "RepoIntelRequest_new pf v =
     (case v of
        JList vs \<Rightarrow>
          (case str_items vs of
             Some names \<Rightarrow>
               (let r = \<lparr> req_repositories = names,
                          include_metrics = include_metrics_default pf \<rparr>
                in if repo_request_ok pf r then Inr r
                   else Inl (ValidationError ''validation error for RepoIntelRequest''))
           | None \<Rightarrow> Inl (ValidationError ''validation error for RepoIntelRequest''))
      | _ \<Rightarrow> Inl (ValidationError ''validation error for RepoIntelRequest''))"

definition TechTrendsRequest_new :: "'w platform \<Rightarrow> trends_request \<Rightarrow> exn + trends_request" where
  "TechTrendsRequest_new pf r =
     (if trends_request_ok pf r then Inr r
      else Inl (ValidationError ''validation error for TechTrendsRequest''))"

definition GeneralChatRequest_new :: "'w platform \<Rightarrow> chat_request \<Rightarrow> exn + chat_request" where
  "GeneralChatRequest_new pf r =
     (if chat_request_ok pf r then Inr r
      else Inl (ValidationError ''validation error for GeneralChatRequest''))"

section \<open>The specialist agent: delegation\<close>

text \<open>
  \<^verbatim>\<open>SpecialistAgent.handle_delegation_from_entry\<close>:
  \<^verbatim>\<open>
  payload = message.get("payload", {})
  repositories = payload.get("repositories", [])
  request = RepoIntelRequest(repositories=repositories)
  result = await self.process_request(request)
  return result.dict()
  \<close>
\<close>

definition handle_delegation_from_entry ::
  "'w platform \<Rightarrow> 'w specialist_agent \<Rightarrow> json \<Rightarrow> ('w, json) call" where
  "handle_delegation_from_entry pf self msg w =
     (case get_or_raise msg ''payload'' (JDict []) of
        Inl e \<Rightarrow> (Inl e, w)
      | Inr payload_v \<Rightarrow>
          (case get_or_raise payload_v ''repositories'' (JList []) of
             Inl e \<Rightarrow> (Inl e, w)
           | Inr repositories_v \<Rightarrow>
               (case RepoIntelRequest_new pf repositories_v of
                  Inl e \<Rightarrow> (Inl e, w)
                | Inr request \<Rightarrow>
                    (case process_request pf self request w of
                       (result_v, w') \<Rightarrow> (Inr (repo_intel_dict result_v), w')))))"

section \<open>The agent manager\<close>

text \<open>
  The entry agent (\<^verbatim>\<open>agents/entry_agent.py\<close>) and the A2A service
  (\<^verbatim>\<open>services/a2a_service.py\<close>) are outside the sources at hand. They are taken as the
  manager uses them: methods that read or change the outside world and raise or return.
\<close>

record 'w entry_agent =
  entry_process_request :: "trends_request \<Rightarrow> ('w, trends_response) call"
  classify_query :: "string \<Rightarrow> ('w, string) call"
  process_general_chat :: "chat_request \<Rightarrow> ('w, chat_response) call"
  entry_health_check :: "('w, json) call"

record 'w a2a_service =
  a2a_health_check :: "('w, json) call"

text \<open>\<^verbatim>\<open>AgentManager\<close>: the attributes set by \<^verbatim>\<open>__init__\<close>.\<close>

record 'w agent_manager =
  entry_agent :: "'w entry_agent option"
  specialist_agent :: "'w specialist_agent option"
  a2a_service :: "'w a2a_service option"
  mcp_manager :: "'w mcp_client_manager option"
  initialized :: bool

definition not_initialized :: exn where
  "not_initialized = RuntimeError ''Agent manager not initialized''"

text \<open>
  \<^verbatim>\<open>AgentManager.receive_a2a_message\<close>:
  \<^verbatim>\<open>
  try:
      if recipient == "specialist_agent" and self.specialist_agent:
          return await self.specialist_agent.handle_delegation_from_entry(payload)
      return {"error": f"Unknown recipient or message type for {recipient}"}
  except Exception as e:
      return {"error": str(e)}
  \<close>
\<close>

definition receive_a2a_message ::
  "'w platform \<Rightarrow> 'w agent_manager \<Rightarrow> string \<Rightarrow> string \<Rightarrow> json \<Rightarrow> 'w \<Rightarrow> json \<times> 'w" where
  "receive_a2a_message pf self recipient_name msg_type payload_v w =
     (case (if recipient_name = ''specialist_agent'' then specialist_agent self else None) of
        Some sa \<Rightarrow>
          (case handle_delegation_from_entry pf sa payload_v w of
             (Inr d, w') \<Rightarrow> (d, w')
           | (Inl e, w') \<Rightarrow> (JDict [(''error'', JStr (exn_str e))], w'))
      | None \<Rightarrow>
          (JDict [(''error'',
                   JStr (''Unknown recipient or message type for '' @ recipient_name))], w))"

text \<open>
  \<^verbatim>\<open>AgentManager.process_tech_trends_request\<close>. The request-level operations start
  with the guard
  \<^verbatim>\<open>
  if not self.initialized or not self.entry_agent:
      raise RuntimeError("Agent manager not initialized")
  \<close>
  (with \<^verbatim>\<open>self.specialist_agent\<close> where that agent is used): the case \<open>None\<close> below
  is the guard that fires, the case \<open>Some\<close> an initialised manager with its agent.
\<close>

definition process_tech_trends_request ::
  "'w agent_manager \<Rightarrow> trends_request \<Rightarrow> ('w, trends_response) call" where
  "process_tech_trends_request self request =
     (case (if initialized self then entry_agent self else None) of
        None \<Rightarrow> raises not_initialized
      | Some ea \<Rightarrow> entry_process_request ea request)"

text \<open>
  \<^verbatim>\<open>AgentManager.route_user_intent\<close>; the keyword parameters \<^verbatim>\<open>limit\<close>,
  \<^verbatim>\<open>include_hn\<close> and \<^verbatim>\<open>include_brave\<close> are passed by the caller here.
\<close>

definition route_user_intent ::
  "'w platform \<Rightarrow> 'w agent_manager \<Rightarrow> string \<Rightarrow> int \<Rightarrow> bool \<Rightarrow> bool \<Rightarrow> ('w, json) call" where
  "route_user_intent pf self input_text lim hn brave =
     (case (if initialized self then entry_agent self else None) of
        None \<Rightarrow> raises not_initialized
      | Some ea \<Rightarrow>
          and_then (classify_query ea input_text) (\<lambda>classification.
            if classification = ''TECH'' then
              (case TechTrendsRequest_new pf
                      \<lparr> query = input_text, limit = lim,
                        include_hn = Some hn, include_brave = Some brave \<rparr> of
                 Inl e \<Rightarrow> raises e
               | Inr trends_req \<Rightarrow>
                   and_then (entry_process_request ea trends_req) (\<lambda>d.
                     returns (JDict [(''route'', JStr ''trends''), (''data'', trends_dict d)])))
            else
              (case GeneralChatRequest_new pf \<lparr> message = input_text \<rparr> of
                 Inl e \<Rightarrow> raises e
               | Inr chat_req \<Rightarrow>
                   and_then (process_general_chat ea chat_req) (\<lambda>d.
                     returns (JDict [(''route'', JStr ''chat''), (''data'', chat_dict d)])))))"

text \<open>\<^verbatim>\<open>AgentManager.process_repo_intel_request\<close>\<close>

definition process_repo_intel_request ::
  "'w platform \<Rightarrow> 'w agent_manager \<Rightarrow> repo_intel_request \<Rightarrow> ('w, repo_intel_response) call" where
  "process_repo_intel_request pf self request w =
     (case (if initialized self then specialist_agent self else None) of
        None \<Rightarrow> raises not_initialized w
      | Some sa \<Rightarrow> (case process_request pf sa request w of (r, w') \<Rightarrow> (Inr r, w')))"

text \<open>
  \<^verbatim>\<open>RepoIntelResponse(repositories=[], total_repos=0, analysis_timestamp=...)\<close>, the
  call of the manager that leaves \<^verbatim>\<open>insights\<close> out. The model declares
  \<^verbatim>\<open>insights: str | None = Field(description=...)\<close>, with no default
  (src/app/models/responses.py). The agents are built on \<^verbatim>\<open>pydantic_ai\<close>, which runs
  on pydantic 2 only, and there a field without a default is required, also when its
  type admits \<^verbatim>\<open>None\<close>: the call raises \<^verbatim>\<open>ValidationError\<close>. The two calls of
  \<^verbatim>\<open>process_request\<close> pass \<^verbatim>\<open>insights\<close> and are not concerned.
\<close>

definition empty_repo_intel :: "exn + repo_intel_response" where
  "empty_repo_intel = Inl (ValidationError ''validation error for RepoIntelResponse'')"

text \<open>
  The mapping passed as \<^verbatim>\<open>correlation_analysis\<close>; its score \<^verbatim>\<open>0.0\<close> is kept as
  the number 0.
\<close>

definition correlation_literal :: json where
  "correlation_literal =
     JDict [(''trending_technologies'', JList []), (''related_repositories'', JList []),
            (''correlation_score'', JInt 0), (''key_insights'', JList [])]"

text \<open>
  \<^verbatim>\<open>AgentManager.process_combined_analysis_request\<close>. The list
  \<^verbatim>\<open>repositories_to_analyze\<close> is created empty and the branch for
  \<^verbatim>\<open>auto_detect_repos\<close> is \<^verbatim>\<open>pass\<close>; the test of the list that follows is kept as
  the code has it.
\<close>

definition process_combined_analysis_request ::
  "'w platform \<Rightarrow> 'w agent_manager \<Rightarrow> combined_request \<Rightarrow> ('w, combined_response) call" where
  "process_combined_analysis_request pf self request =
     (case (if initialized self then entry_agent self else None) of
        None \<Rightarrow> raises not_initialized
      | Some ea \<Rightarrow>
     (case specialist_agent self of
        None \<Rightarrow> raises not_initialized
      | Some sa \<Rightarrow>
     (case TechTrendsRequest_new pf
             \<lparr> query = cq_query request, limit = trend_limit request,
               include_hn = None, include_brave = None \<rparr> of
        Inl e \<Rightarrow> raises e
      | Inr trends_req \<Rightarrow>
          and_then (entry_process_request ea trends_req) (\<lambda>trends_resp.
            let repositories_to_analyze = ([] :: string list);
                repositories_to_analyze =
                  (if auto_detect_repos request then repositories_to_analyze
                   else repositories_to_analyze)
            in and_then (\<lambda>w. (empty_repo_intel, w)) (\<lambda>empty_resp.
               and_then
                 (if repositories_to_analyze \<noteq> [] then
                    (case RepoIntelRequest_new pf (JList (map JStr repositories_to_analyze)) of
                       Inl e \<Rightarrow> raises e
                     | Inr repo_req \<Rightarrow>
                         (\<lambda>w. case process_request pf sa repo_req w of (r, w') \<Rightarrow> (Inr r, w')))
                  else returns empty_resp) (\<lambda>repo_resp w.
                 if correlation_ok pf correlation_literal then
                   (Inr \<lparr> ca_query = cq_query request,
                          ca_trends = trends_resp,
                          ca_repositories = repo_resp,
                          correlation_analysis = correlation_literal,
                          recommendations = [],
                          ca_analysis_timestamp = utcnow pf w \<rparr>, w)
                 else
                   (Inl (ValidationError ''validation error for CombinedAnalysisResponse''),
                    w)))))))"

text \<open>
  \<^verbatim>\<open>AgentManager.health_check\<close>: the probes are awaited one after the other, with no
  handler around them.
  \<^verbatim>\<open>
  if self.entry_agent:
      health_status["agents"]["entry_agent"] = await self.entry_agent.health_check()
  if self.specialist_agent:
      health_status["agents"]["specialist_agent"] = await self.specialist_agent.health_check()
  if self.mcp_manager:
      health_status["mcp_servers"] = await self.mcp_manager.health_check_all()
  if self.a2a_service:
      health_status["a2a_service"] = await self.a2a_service.health_check()
  return health_status
  \<close>
\<close>

definition health_status_dict :: "bool \<Rightarrow> (string \<times> json) list \<Rightarrow> json \<Rightarrow> json \<Rightarrow> int \<Rightarrow> json" where
  "health_status_dict init agents mcp a2a ts =
     JDict [(''agent_manager'', JDict [(''initialized'', JBool init)]),
            (''agents'', JDict agents),
            (''mcp_servers'', mcp),
            (''a2a_service'', a2a),
            (''timestamp'', JInt ts)]"

definition health_check :: "'w platform \<Rightarrow> 'w agent_manager \<Rightarrow> ('w, json) call" where
  "health_check pf self w0 =
     and_then
       (case entry_agent self of
          None \<Rightarrow> returns []
        | Some ea \<Rightarrow> and_then (entry_health_check ea) (\<lambda>h. returns [(''entry_agent'', h)]))
       (\<lambda>agents1.
     and_then
       (case specialist_agent self of
          None \<Rightarrow> returns agents1
        | Some sa \<Rightarrow>
            (\<lambda>w. (Inr (agents1 @ [(''specialist_agent'', specialist_health_check pf sa w)]), w)))
       (\<lambda>agents2.
     and_then
       (case mcp_manager self of
          None \<Rightarrow> returns (JDict [])
        | Some mm \<Rightarrow> health_check_all mm)
       (\<lambda>mcp.
     and_then
       (case a2a_service self of
          None \<Rightarrow> returns (JDict [])
        | Some svc \<Rightarrow> a2a_health_check svc)
       (\<lambda>a2a.
          returns (health_status_dict (initialized self) agents2 mcp a2a (utcnow pf w0))))))
       w0"

section \<open>The delegation endpoint\<close>

text \<open>\<^verbatim>\<open>A2ASendRequest\<close> (src/app/routers/system.py) and \<^verbatim>\<open>A2ASendResponse\<close>.\<close>

record a2a_send_request =
  sender :: string
  recipient :: string
  message_type :: string
  payload :: json
  req_correlation_id :: "string option"

record a2a_send_response =
  status :: string
  result :: json
  correlation_id :: "string option"

text \<open>
  \<^verbatim>\<open>a2a_send\<close>:
  \<^verbatim>\<open>
  result = await manager.receive_a2a_message(recipient=request.recipient,
      message_type=request.message_type, payload=request.payload)
  return A2ASendResponse(status="ok" if "error" not in result else "error",
      result=result, correlation_id=request.correlation_id)
  \<close>
\<close>

definition a2a_send ::
  "'w platform \<Rightarrow> a2a_send_request \<Rightarrow> 'w agent_manager \<Rightarrow> 'w \<Rightarrow> a2a_send_response \<times> 'w" where
  "a2a_send pf request manager w =
     (case receive_a2a_message pf manager (recipient request) (message_type request)
             (payload request) w of
        (result_v, w') \<Rightarrow>
          (\<lparr> status = (if \<not> has_key result_v ''error'' then ''ok'' else ''error''),
             result = result_v,
             correlation_id = req_correlation_id request \<rparr>, w'))"

text \<open>
  \<^verbatim>\<open>get_agent_manager\<close> (src/app/dependencies.py), which every endpoint goes through.
\<close>

datatype http_error = HTTPException nat string

definition get_agent_manager :: "'w agent_manager \<Rightarrow> http_error + 'w agent_manager" where
  "get_agent_manager agent_manager_v =
     (if \<not> initialized agent_manager_v
      then Inl (HTTPException 503 ''Agent manager not initialized'')
      else Inr agent_manager_v)"

section \<open>The tools registered by the agent factory\<close>

text \<open>
  The four tools of \<^verbatim>\<open>AgentFactory._register_tools\<close> (src/app/agents/factory.py). Each
  looks its client up in the registry, answers an error mapping when there is none, and
  otherwise calls the client under a handler that turns an exception into an error
  mapping. A tool returns a value in every case.
\<close>

definition search_brave ::
  "'w platform \<Rightarrow> 'w mcp_client_manager \<Rightarrow> string \<Rightarrow> string \<Rightarrow> 'w \<Rightarrow> json \<times> 'w" where
  "search_brave pf mcp q freshness w =
     (case get_client mcp ''brave_search'' of
        None \<Rightarrow> (JDict [(''error'', JStr ''Brave Search MCP client not available'')], w)
      | Some client \<Rightarrow>
          (case call_tool client ''brave_web_search''
                  (JDict [(''query'', JStr q), (''freshness'', JStr freshness),
                          (''count'', JInt (brave_web_search_limit pf))]) w of
             (Inr r, w') \<Rightarrow> (r, w')
           | (Inl e, w') \<Rightarrow>
               (JDict [(''error'', JStr ''mcp_connection_failed''),
                       (''details'', JStr (exn_str e))], w')))"

definition type_map :: "(string \<times> string) list" where
  "type_map = [(''top'', ''topstories''), (''new'', ''newstories''), (''best'', ''beststories'')]"

definition get_hacker_news_stories ::
  "'w mcp_client_manager \<Rightarrow> string \<Rightarrow> int \<Rightarrow> 'w \<Rightarrow> json \<times> 'w" where
  "get_hacker_news_stories mcp story_type lim w =
     (case get_client mcp ''hacker_news'' of
        None \<Rightarrow> (JDict [(''error'', JStr ''Hacker News MCP client not available'')], w)
      | Some client \<Rightarrow>
          (let hn_story_type =
                 (case map_of type_map (py_lower story_type) of
                    None \<Rightarrow> story_type
                  | Some t \<Rightarrow> t)
           in case call_tool client ''get_stories''
                     (JDict [(''story_type'', JStr hn_story_type), (''limit'', JInt lim)]) w of
                (Inr r, w') \<Rightarrow> (r, w')
              | (Inl e, w') \<Rightarrow>
                  (JDict [(''error'', JStr ''mcp_connection_failed''),
                          (''details'', JStr (exn_str e))], w')))"

definition search_github_repos ::
  "'w mcp_client_manager \<Rightarrow> string \<Rightarrow> string \<Rightarrow> int \<Rightarrow> 'w \<Rightarrow> json \<times> 'w" where
  "search_github_repos mcp q sort_by lim w =
     (case get_client mcp ''github'' of
        None \<Rightarrow> (JDict [(''error'', JStr ''GitHub MCP client not available'')], w)
      | Some client \<Rightarrow>
          (case call_tool client ''search_repositories''
                  (JDict [(''query'', JStr q), (''sort'', JStr sort_by),
                          (''per_page'', JInt lim)]) w of
             (Inr r, w') \<Rightarrow> (r, w')
           | (Inl e, w') \<Rightarrow> (JDict [(''error'', JStr (exn_str e))], w')))"

definition get_github_repo_details ::
  "'w mcp_client_manager \<Rightarrow> string \<Rightarrow> string \<Rightarrow> 'w \<Rightarrow> json \<times> 'w" where
  "get_github_repo_details mcp owner_name repo w =
     (case get_client mcp ''github'' of
        None \<Rightarrow> (JDict [(''error'', JStr ''GitHub MCP client not available'')], w)
      | Some client \<Rightarrow>
          (case call_tool client ''get_repository''
                  (JDict [(''owner'', JStr owner_name), (''repo'', JStr repo)]) w of
             (Inr r, w') \<Rightarrow> (r, w')
           | (Inl e, w') \<Rightarrow> (JDict [(''error'', JStr (exn_str e))], w')))"

section \<open>The wrapper framing\<close>

text \<open>
  The text \<^verbatim>\<open>AgentRunResult(output='...')\<close> around an output \<open>t\<close>, which is what
  the specification calls the wrapper framing.
\<close>

definition framed :: "string \<Rightarrow> string" where
  "framed t = ''AgentRunResult(output='' @ [quote] @ t @ [quote, CHR '')'']"

section \<open>A concrete platform, agents and managers\<close>

text \<open>
  Concrete inputs on which the definitions are run. The outside world is a counter of
  the calls made to it, so that a call that was made shows in the world returned.
\<close>

definition sample_platform :: "nat platform" where
  "sample_platform =
     \<lparr> utcnow = (\<lambda>w. int w),
       repository_ok = (\<lambda>r. True),
       repr_repository = full_name,
       include_metrics_default = True,
       repo_request_ok = (\<lambda>r. True),
       trends_request_ok = (\<lambda>r. True),
       chat_request_ok = (\<lambda>r. True),
       correlation_ok = (\<lambda>v. True),
       brave_web_search_limit = 20 \<rparr>"

text \<open>An agent that answers every prompt with details of a repository.\<close>

definition sample_result :: run_result where
  "sample_result =
     \<lparr> data = JDict [(''description'', JStr ''a repository'')],
       str = framed ''healthy'' \<rparr>"

definition resolving_agent :: "nat agent" where
  "resolving_agent = \<lparr> run = (\<lambda>prompt w. (Inr sample_result, Suc w)) \<rparr>"

text \<open>An agent that answers the requests for details and raises on any other prompt.\<close>

definition summary_failing_agent :: "nat agent" where
  "summary_failing_agent =
     \<lparr> run = (\<lambda>prompt w.
         if prefix ''Get GitHub repository details for '' prompt
         then (Inr sample_result, Suc w)
         else (Inl (OtherError ''model unavailable''), Suc w)) \<rparr>"

definition sample_specialist :: "nat agent \<Rightarrow> nat specialist_agent" where
  "sample_specialist a =
     \<lparr> agent = a, sa_mcp_manager = None, agent_name = ''specialist_agent'' \<rparr>"

definition sample_trends :: "trends_request \<Rightarrow> nat \<Rightarrow> trends_response" where
  "sample_trends r w =
     \<lparr> tr_query = query r, tr_trends = [], total_items = 0, sources = [],
       tr_analysis_timestamp = int w, summary = Some ''No data'' \<rparr>"

definition sample_entry :: "nat entry_agent" where
  "sample_entry =
     \<lparr> entry_process_request = (\<lambda>r w. (Inr (sample_trends r w), Suc w)),
       classify_query = (\<lambda>t w. (Inr ''TECH'', Suc w)),
       process_general_chat = (\<lambda>r w.
         (Inr \<lparr> response = message r, timestamp = int w, chat_message_type = ''general'' \<rparr>,
          Suc w)),
       entry_health_check = (\<lambda>w. (Inr (JDict [(''status'', JStr ''healthy'')]), Suc w)) \<rparr>"

text \<open>An entry agent whose health probe raises.\<close>

definition faulty_entry :: "nat entry_agent" where
  "faulty_entry =
     sample_entry \<lparr> entry_health_check := (\<lambda>w. (Inl (OtherError ''probe failed''), Suc w)) \<rparr>"

definition empty_registry :: "nat mcp_client_manager" where
  "empty_registry =
     \<lparr> get_client = (\<lambda>n. None),
       health_check_all = (\<lambda>w. (Inr (JDict [(''github'', JBool False)]), Suc w)) \<rparr>"

definition sample_a2a :: "nat a2a_service" where
  "sample_a2a = \<lparr> a2a_health_check = (\<lambda>w. (Inr (JDict [(''running'', JBool True)]), Suc w)) \<rparr>"

definition sample_manager :: "nat entry_agent \<Rightarrow> bool \<Rightarrow> nat agent_manager" where
  "sample_manager ea init =
     \<lparr> entry_agent = Some ea,
       specialist_agent = Some (sample_specialist resolving_agent),
       a2a_service = Some sample_a2a,
       mcp_manager = Some empty_registry,
       initialized = init \<rparr>"

text \<open>A registry and an A2A service whose probes raise.\<close>

definition faulty_registry :: "nat mcp_client_manager" where
  "faulty_registry =
     empty_registry \<lparr> health_check_all := (\<lambda>w. (Inl (OtherError ''registry down''), Suc w)) \<rparr>"

definition faulty_a2a :: "nat a2a_service" where
  "faulty_a2a = \<lparr> a2a_health_check = (\<lambda>w. (Inl (OtherError ''a2a down''), Suc w)) \<rparr>"

text \<open>The delegation message of the specification, as the endpoint receives it.\<close>

definition sample_send :: "string \<Rightarrow> a2a_send_request" where
  "sample_send to =
     \<lparr> sender = ''entry_agent'', recipient = to, message_type = ''delegation'',
       payload = JDict [(''repositories'', JList [JStr ''a/b''])],
       req_correlation_id = None \<rparr>"

definition fifteen_names :: "string list" where
  "fifteen_names = map (\<lambda>c. ''o/'' @ [c]) ''abcdefghijklmno''"

section \<open>Facts about the string operations\<close>

lemma rfind_from_short: "length s < length n \<Longrightarrow> rfind_from n s i = - 1"
proof (induction s arbitrary: i)
  case Nil
  then show ?case by auto
next
  case (Cons c cs)
  then have "\<not> prefix n (c # cs)" by (auto dest: prefix_length_le)
  with Cons show ?case by simp
qed

lemma rfind_from_at_end:
  "n \<noteq> [] \<Longrightarrow> 0 \<le> i \<Longrightarrow> rfind_from n (xs @ n) i = i + int (length xs)"
proof (induction xs arbitrary: i)
  case Nil
  then obtain c cs where n: "n = c # cs" by (cases n) auto
  have "rfind_from n cs (i + 1) = - 1" by (rule rfind_from_short) (simp add: n)
  then have "rfind_from n (c # cs) i = i" using n by simp
  then show ?case using n by simp
next
  case (Cons x xs)
  then have "rfind_from n (xs @ n) (i + 1) = i + 1 + int (length xs)" by simp
  with Cons.prems show ?case by simp
qed

lemma py_in_char: "py_in [c] s \<longleftrightarrow> c \<in> set s"
  by (induction s) auto

lemma take_length_append: "take (length xs) (xs @ ys) = xs"
  by simp

lemma drop_length_append: "drop (length xs) (xs @ ys) = ys"
  by simp

lemma in_framed: "py_in ''AgentRunResult(output='' (framed t)"
  by (simp add: framed_def)

lemma find_framed: "py_find (framed t) (''output='' @ [quote]) = 15"
  by (simp add: framed_def py_find_def quote_def)

lemma rfind_framed: "py_rfind (framed t) [quote, CHR '')''] = 23 + int (length t)"
  unfolding py_rfind_def framed_def
  using rfind_from_at_end [of "[quote, CHR '')'']" 0 "''AgentRunResult(output='' @ [quote] @ t"]
  by (simp del: rfind_from.simps)

lemma slice_framed: "py_slice (framed t) 23 (23 + int (length t)) = t"
proof -
  let ?p = "''AgentRunResult(output='' @ [quote]"
  have f: "framed t = (?p @ t) @ [quote, CHR '')'']"
    by (simp add: framed_def)
  have a: "clamp_index (framed t) 23 = length ?p"
    by (simp add: clamp_index_def framed_def)
  have b: "clamp_index (framed t) (23 + int (length t)) = length (?p @ t)"
    by (simp add: clamp_index_def framed_def)
  have "py_slice (framed t) 23 (23 + int (length t))
          = drop (length ?p) (take (length (?p @ t)) ((?p @ t) @ [quote, CHR '')'']))"
    unfolding py_slice_def a b by (subst f) (rule refl)
  also have "\<dots> = drop (length ?p) (?p @ t)"
    by (simp only: take_length_append)
  also have "\<dots> = t"
    by (simp only: drop_length_append)
  finally show ?thesis .
qed

lemma extract_content_framed:
  "extract_content (framed t) =
     (if t = [] then framed t else py_replace t [backslash, quote] [quote])"
  unfolding extract_content_def Let_def find_framed rfind_framed
  by (simp add: in_framed slice_framed)

section \<open>Output text extraction\<close>

text \<open>
  Claim C9, as amended. \<^verbatim>\<open>_extract_content\<close> returns a string on every input: the
  definition has no branch that raises. An input without the marker
  \<^verbatim>\<open>AgentRunResult(output=\<close> is returned unchanged. When the input is the framing
  \<^verbatim>\<open>AgentRunResult(output='t')\<close> around a text \<open>t\<close> that is not empty, the result is
  \<open>t\<close> with each escaped quote \<^verbatim>\<open>\'\<close> replaced by a quote.
\<close>

theorem extract_content_amended:
  "(\<not> py_in ''AgentRunResult(output='' s \<longrightarrow> extract_content s = s)
   \<and> (t \<noteq> [] \<longrightarrow> extract_content (framed t) = py_replace t [backslash, quote] [quote])"
  by (simp add: extract_content_framed) (simp add: extract_content_def)

theorem extract_content_amended_witness:
  "\<not> py_in ''AgentRunResult(output='' ''plain text''
   \<and> extract_content ''plain text'' = ''plain text''
   \<and> ''it'' @ [backslash, quote] @ ''s'' \<noteq> []
   \<and> extract_content (framed (''it'' @ [backslash, quote] @ ''s'')) = ''it'' @ [quote] @ ''s''"
proof -
  have a: "\<not> py_in ''AgentRunResult(output='' ''plain text''"
    by simp
  have b: "''it'' @ [backslash, quote] @ ''s'' \<noteq> []"
    by simp
  have c: "py_replace (''it'' @ [backslash, quote] @ ''s'') [backslash, quote] [quote]
             = ''it'' @ [quote] @ ''s''"
    by (simp add: py_replace_def backslash_def quote_def)
  show ?thesis
    using a b c extract_content_amended [of "''plain text''" "''it'' @ [backslash, quote] @ ''s''"]
    by simp
qed

text \<open>
  Claim C9 as stated fails on the framing around the empty text: the test
  \<^verbatim>\<open>end > start\<close> is false there, and the framing itself is returned where the
  enclosed text is the empty string.
\<close>

theorem extract_content_empty_counterexample:
  "extract_content (framed []) = framed []
   \<and> framed [] \<noteq> py_replace [] [backslash, quote] [quote]"
  by (simp add: extract_content_framed) (simp add: framed_def py_replace_def)

section \<open>Repository analysis\<close>

lemma build_repository_full_name:
  "build_repository pf repo_name ow rp d = Some r \<Longrightarrow> full_name r = repo_name"
  by (auto simp: build_repository_def Let_def bind_eq_Some_conv split: if_splits)

lemma analyze_repository_full_name:
  "analyze_repository pf self repo_name incl w = (Some r, w') \<Longrightarrow> full_name r = repo_name"
  by (auto simp: analyze_repository_def Let_def build_repository_full_name
           split: if_splits option.splits prod.splits sum.splits)

lemma analyze_loop_names:
  "analyze_loop pf self incl xs acc w = (rs, w') \<Longrightarrow>
     \<exists>ys. map full_name rs = map full_name acc @ ys \<and> subseq ys xs"
proof (induction xs arbitrary: acc w)
  case Nil
  then show ?case by auto
next
  case (Cons x xs)
  show ?case
  proof (cases "analyze_repository pf self x incl w")
    case (Pair o1 w1)
    show ?thesis
    proof (cases o1)
      case None
      with Pair Cons.prems have "analyze_loop pf self incl xs acc w1 = (rs, w')" by simp
      from Cons.IH [OF this] show ?thesis by (auto intro: subseq_Cons')
    next
      case (Some r)
      with Pair Cons.prems have "analyze_loop pf self incl xs (acc @ [r]) w1 = (rs, w')" by simp
      from Cons.IH [OF this] obtain ys where
        ys: "map full_name rs = map full_name (acc @ [r]) @ ys" "subseq ys xs" by blast
      have "full_name r = x" using Pair Some by (auto dest: analyze_repository_full_name)
      with ys show ?thesis by auto
    qed
  qed
qed

lemma process_request_names:
  "subseq (map full_name (repositories (fst (process_request pf self request w))))
          (take 10 (req_repositories request))"
proof (cases "analyze_loop pf self (include_metrics request)
                (take 10 (req_repositories request)) [] w")
  case (Pair rs w1)
  from analyze_loop_names [OF this]
  have s: "subseq (map full_name rs) (take 10 (req_repositories request))"
    by auto
  show ?thesis using Pair s
    by (auto simp: process_request_def process_request_try_def
             split: prod.splits sum.splits if_splits)
qed

text \<open>
  When the outside world has no say in whether an identifier gets a record, the loop
  collects a record for every identifier of its list that gets one, and for no other.
\<close>

lemma analyze_loop_names_exact:
  assumes indep: "\<And>x v v'. (fst (analyze_repository pf self x incl v) = None)
                           = (fst (analyze_repository pf self x incl v') = None)"
  shows "analyze_loop pf self incl xs acc w = (rs, w') \<Longrightarrow>
     map full_name rs
       = map full_name acc
         @ filter (\<lambda>x. fst (analyze_repository pf self x incl w0) \<noteq> None) xs"
proof (induction xs arbitrary: acc w)
  case Nil
  then show ?case by auto
next
  case (Cons x xs)
  show ?case
  proof (cases "analyze_repository pf self x incl w")
    case (Pair o1 w1)
    show ?thesis
    proof (cases o1)
      case None
      with Pair have "fst (analyze_repository pf self x incl w) = None" by simp
      then have skip: "fst (analyze_repository pf self x incl w0) = None"
        using indep [of x w w0] by simp
      from None Pair Cons.prems have "analyze_loop pf self incl xs acc w1 = (rs, w')" by simp
      from Cons.IH [OF this] show ?thesis using skip by simp
    next
      case (Some r)
      with Pair have "fst (analyze_repository pf self x incl w) \<noteq> None" by simp
      then have keep: "fst (analyze_repository pf self x incl w0) \<noteq> None"
        using indep [of x w w0] by simp
      have n: "full_name r = x" using Pair Some by (auto dest: analyze_repository_full_name)
      from Some Pair Cons.prems
      have "analyze_loop pf self incl xs (acc @ [r]) w1 = (rs, w')" by simp
      from Cons.IH [OF this] show ?thesis using keep n by simp
    qed
  qed
qed

lemma process_request_try_names_exact:
  assumes indep: "\<And>x v v'.
      (fst (analyze_repository pf self x (include_metrics request) v) = None)
      = (fst (analyze_repository pf self x (include_metrics request) v') = None)"
    and ok: "process_request_try pf self request w = (Inr r, w')"
  shows "map full_name (repositories r)
       = filter (\<lambda>x. fst (analyze_repository pf self x (include_metrics request) w) \<noteq> None)
           (take 10 (req_repositories request))"
proof (cases "analyze_loop pf self (include_metrics request)
                (take 10 (req_repositories request)) [] w")
  case (Pair rs w1)
  from analyze_loop_names_exact [of pf self "include_metrics request", OF indep Pair, of w]
  have "map full_name rs
       = filter (\<lambda>x. fst (analyze_repository pf self x (include_metrics request) w) \<noteq> None)
           (take 10 (req_repositories request))"
    by simp
  moreover have "repositories r = rs"
    using ok Pair
    by (auto simp: process_request_try_def split: prod.splits sum.splits if_splits)
  ultimately show ?thesis by simp
qed

text \<open>The agent that answers every prompt resolves every identifier that has a separator.\<close>

lemma resolving_agent_resolves:
  "(fst (analyze_repository sample_platform (sample_specialist resolving_agent) x incl v) = None)
     = (\<not> py_in ''/'' x)"
proof (cases "py_in ''/'' x")
  case False
  then show ?thesis by (simp add: analyze_repository_def)
next
  case True
  then have "CHR ''/'' \<in> set x" by (simp add: py_in_char)
  then have "py_split1 x CHR ''/''
      = [takeWhile (\<lambda>c. c \<noteq> CHR ''/'') x, tl (dropWhile (\<lambda>c. c \<noteq> CHR ''/'') x)]"
    by (simp add: py_split1_def)
  then show ?thesis
    using True
    by (simp add: analyze_repository_def resolving_agent_def sample_specialist_def
                  sample_result_def build_repository_def sample_platform_def Let_def)
qed

text \<open>
  Claim C1. \<^verbatim>\<open>process_request\<close> gives the same response, and leaves the outside
  world in the same state, as on the request cut to its first 10 identifiers: the
  identifiers after the tenth have no effect. The repositories of the response are
  analyses of identifiers among those first 10, in their order. And each of the first
  10 is considered: when the outside world has no say in whether an identifier gets a
  record, a response from the \<^verbatim>\<open>try\<close> holds an analysis for every identifier among
  the first 10 that gets one, and for these only.
\<close>

theorem process_request_first_ten:
  "process_request pf self request w
     = process_request pf self
         (request \<lparr> req_repositories := take 10 (req_repositories request) \<rparr>) w
   \<and> subseq (map full_name (repositories (fst (process_request pf self request w))))
             (take 10 (req_repositories request))
   \<and> ((\<forall>x v v'. (fst (analyze_repository pf self x (include_metrics request) v) = None)
                = (fst (analyze_repository pf self x (include_metrics request) v') = None))
        \<longrightarrow> process_request_try pf self request w = (Inr r, w')
        \<longrightarrow> process_request pf self request w = (r, w')
            \<and> map full_name (repositories r)
                = filter (\<lambda>x. fst (analyze_repository pf self x (include_metrics request) w)
                                 \<noteq> None)
                    (take 10 (req_repositories request)))"
proof (intro conjI impI)
  show "process_request pf self request w
     = process_request pf self
         (request \<lparr> req_repositories := take 10 (req_repositories request) \<rparr>) w"
    by (simp add: process_request_def process_request_try_def)
  show "subseq (map full_name (repositories (fst (process_request pf self request w))))
             (take 10 (req_repositories request))"
    by (rule process_request_names)
next
  assume ok: "process_request_try pf self request w = (Inr r, w')"
  then show "process_request pf self request w = (r, w')"
    by (simp add: process_request_def)
next
  assume indep: "\<forall>x v v'.
      (fst (analyze_repository pf self x (include_metrics request) v) = None)
      = (fst (analyze_repository pf self x (include_metrics request) v') = None)"
    and ok: "process_request_try pf self request w = (Inr r, w')"
  from indep have i: "\<And>x v v'.
      (fst (analyze_repository pf self x (include_metrics request) v) = None)
      = (fst (analyze_repository pf self x (include_metrics request) v') = None)"
    by blast
  show "map full_name (repositories r)
      = filter (\<lambda>x. fst (analyze_repository pf self x (include_metrics request) w) \<noteq> None)
          (take 10 (req_repositories request))"
    by (rule process_request_try_names_exact [OF i ok])
qed

theorem process_request_first_ten_witness:
  "10 < length fifteen_names
   \<and> (\<forall>x v v'. (fst (analyze_repository sample_platform (sample_specialist resolving_agent)
                       x True v) = None)
              = (fst (analyze_repository sample_platform (sample_specialist resolving_agent)
                       x True v') = None))
   \<and> fst (process_request_try sample_platform (sample_specialist resolving_agent)
         \<lparr> req_repositories = fifteen_names, include_metrics = True \<rparr> 0)
       = Inr (fst (process_request sample_platform (sample_specialist resolving_agent)
         \<lparr> req_repositories = fifteen_names, include_metrics = True \<rparr> 0))
   \<and> map full_name (repositories (fst (process_request sample_platform
         (sample_specialist resolving_agent)
         \<lparr> req_repositories = fifteen_names, include_metrics = True \<rparr> 0)))
       = take 10 fifteen_names
   \<and> process_request sample_platform (sample_specialist resolving_agent)
         \<lparr> req_repositories = fifteen_names, include_metrics = True \<rparr> 0
       = process_request sample_platform (sample_specialist resolving_agent)
           \<lparr> req_repositories = take 10 fifteen_names, include_metrics = True \<rparr> 0"
proof -
  let ?sa = "sample_specialist resolving_agent"
  let ?rq = "\<lparr> req_repositories = fifteen_names, include_metrics = True \<rparr>"
  obtain r w' where rw: "process_request sample_platform ?sa ?rq 0 = (r, w')"
    by (cases "process_request sample_platform ?sa ?rq 0")
  have a: "10 < length fifteen_names"
    by code_simp
  have indep: "\<forall>x v v'. (fst (analyze_repository sample_platform ?sa x True v) = None)
                        = (fst (analyze_repository sample_platform ?sa x True v') = None)"
    by (simp add: resolving_agent_resolves)
  then have indep': "\<forall>x v v'.
      (fst (analyze_repository sample_platform ?sa x (include_metrics ?rq) v) = None)
      = (fst (analyze_repository sample_platform ?sa x (include_metrics ?rq) v') = None)"
    by simp
  have t: "fst (process_request_try sample_platform ?sa ?rq 0)
             = Inr (fst (process_request sample_platform ?sa ?rq 0))"
    by code_simp
  then have ok: "process_request_try sample_platform ?sa ?rq 0 = (Inr r, w')"
    using rw by (auto simp: process_request_def split: prod.splits sum.splits)
  have f: "filter (\<lambda>x. fst (analyze_repository sample_platform ?sa x (include_metrics ?rq) 0)
                          \<noteq> None) (take 10 (req_repositories ?rq))
             = take 10 fifteen_names"
    unfolding resolving_agent_resolves by code_simp
  from process_request_first_ten [of sample_platform ?sa ?rq 0 r w']
  have all: "process_request sample_platform ?sa ?rq 0
           = process_request sample_platform ?sa
               (?rq \<lparr> req_repositories := take 10 (req_repositories ?rq) \<rparr>) 0"
    and names: "map full_name (repositories r)
           = filter (\<lambda>x. fst (analyze_repository sample_platform ?sa x (include_metrics ?rq) 0)
                            \<noteq> None) (take 10 (req_repositories ?rq))"
    using indep' ok by blast+
  have r: "fst (process_request sample_platform ?sa ?rq 0) = r"
    using rw by simp
  have n2: "map full_name (repositories (fst (process_request sample_platform ?sa ?rq 0)))
           = take 10 fifteen_names"
    unfolding r using names f by (rule trans)
  have all2: "process_request sample_platform ?sa ?rq 0
           = process_request sample_platform ?sa
               \<lparr> req_repositories = take 10 fifteen_names, include_metrics = True \<rparr> 0"
    using all by simp
  show ?thesis
    using a indep t n2 all2 by blast
qed

text \<open>
  Claim C10. In every response of \<^verbatim>\<open>process_request\<close>, from the \<^verbatim>\<open>try\<close> and from
  the handler alike, \<^verbatim>\<open>total_repos\<close> is the length of \<^verbatim>\<open>repositories\<close>.
\<close>

theorem process_request_total_repos:
  "total_repos (fst (process_request pf self request w))
     = int (length (repositories (fst (process_request pf self request w))))"
  by (auto simp: process_request_def process_request_try_def
           split: prod.splits sum.splits if_splits)

text \<open>
  Claim C8. When an exception leaves the \<^verbatim>\<open>try\<close> of \<^verbatim>\<open>process_request\<close>, the
  method returns a response with no repositories, \<^verbatim>\<open>total_repos\<close> 0 and the insights
  \<^verbatim>\<open>An error occurred: \<close> followed by the text of the exception.
\<close>

theorem process_request_fault_response:
  "process_request_try pf self request w = (Inl e, w') \<Longrightarrow>
   process_request pf self request w =
     (\<lparr> repositories = [], total_repos = 0, analysis_timestamp = utcnow pf w',
        insights = Some (''An error occurred: '' @ exn_str e) \<rparr>, w')"
  by (simp add: process_request_def)

theorem process_request_fault_response_witness:
  "process_request_try sample_platform (sample_specialist summary_failing_agent)
       \<lparr> req_repositories = [''a/b''], include_metrics = True \<rparr> 0
     = (Inl (OtherError ''model unavailable''), 2)
   \<and> process_request sample_platform (sample_specialist summary_failing_agent)
       \<lparr> req_repositories = [''a/b''], include_metrics = True \<rparr> 0
     = (\<lparr> repositories = [], total_repos = 0, analysis_timestamp = 2,
          insights = Some ''An error occurred: model unavailable'' \<rparr>, 2)"
proof -
  have h: "process_request_try sample_platform (sample_specialist summary_failing_agent)
       \<lparr> req_repositories = [''a/b''], include_metrics = True \<rparr> 0
     = (Inl (OtherError ''model unavailable''), 2)"
    by code_simp
  show ?thesis
    using h process_request_fault_response [OF h] by (simp add: sample_platform_def)
qed

section \<open>Identifiers and their separator\<close>

lemma analyze_repository_no_slash:
  "\<not> py_in ''/'' n \<Longrightarrow> analyze_repository pf self n incl w = (None, w)"
  by (simp add: analyze_repository_def)

lemma analyze_loop_filter:
  "analyze_loop pf self incl xs acc w
     = analyze_loop pf self incl (filter (py_in ''/'') xs) acc w"
proof (induction xs arbitrary: acc w)
  case Nil
  show ?case by simp
next
  case (Cons x xs)
  show ?case
  proof (cases "py_in ''/'' x")
    case True
    then show ?thesis using Cons.IH by (simp split: prod.splits option.splits)
  next
    case False
    then show ?thesis using Cons.IH [of acc w] by (simp add: analyze_repository_no_slash)
  qed
qed

lemma split1_slash:
  assumes "CHR ''/'' \<in> set n"
  shows "py_split1 n CHR ''/''
           = [takeWhile (\<lambda>c. c \<noteq> CHR ''/'') n, tl (dropWhile (\<lambda>c. c \<noteq> CHR ''/'') n)]"
    and "takeWhile (\<lambda>c. c \<noteq> CHR ''/'') n @ ''/'' @ tl (dropWhile (\<lambda>c. c \<noteq> CHR ''/'') n) = n"
proof -
  show "py_split1 n CHR ''/''
          = [takeWhile (\<lambda>c. c \<noteq> CHR ''/'') n, tl (dropWhile (\<lambda>c. c \<noteq> CHR ''/'') n)]"
    using assms by (simp add: py_split1_def)
  let ?d = "dropWhile (\<lambda>c. c \<noteq> CHR ''/'') n"
  have ne: "?d \<noteq> []" using assms by (simp add: dropWhile_eq_Nil_conv)
  then have "hd ?d = CHR ''/''" using hd_dropWhile [of "\<lambda>c. c \<noteq> CHR ''/''" n] by simp
  with ne have "?d = CHR ''/'' # tl ?d" by (cases ?d) auto
  then have "''/'' @ tl ?d = ?d" by simp
  then show "takeWhile (\<lambda>c. c \<noteq> CHR ''/'') n @ ''/'' @ tl ?d = n"
    by (simp only: takeWhile_dropWhile_id)
qed

lemma analyze_repository_slash:
  assumes "py_in ''/'' n"
  shows "analyze_repository pf self n incl w =
     (case run (agent self) (''Get GitHub repository details for '' @ n) w of
        (Inl e, w') \<Rightarrow> (None, w')
      | (Inr d, w') \<Rightarrow>
          (if truthy (data d)
           then build_repository pf n (takeWhile (\<lambda>c. c \<noteq> CHR ''/'') n)
                  (tl (dropWhile (\<lambda>c. c \<noteq> CHR ''/'') n)) (data d)
           else None, w'))"
proof -
  from assms have m: "CHR ''/'' \<in> set n" by (simp add: py_in_char)
  note s = split1_slash [OF m]
  show ?thesis
    unfolding analyze_repository_def s(1)
    using assms s(2) by (simp add: Let_def split: prod.splits sum.splits)
qed

lemma process_request_filter:
  "process_request pf self request w =
   process_request pf self
     (request \<lparr> req_repositories :=
         filter (py_in ''/'') (take 10 (req_repositories request)) \<rparr>) w"
proof -
  have "length (filter (py_in ''/'') (take 10 (req_repositories request))) \<le> 10"
    using length_filter_le [of "py_in ''/''" "take 10 (req_repositories request)"] by simp
  then have t: "take 10 (filter (py_in ''/'') (take 10 (req_repositories request)))
             = filter (py_in ''/'') (take 10 (req_repositories request))"
    by simp
  show ?thesis
    unfolding process_request_def process_request_try_def
    by (simp add: t analyze_loop_filter [of pf self _ "take 10 (req_repositories request)"])
qed

text \<open>
  The cut to 10 identifiers comes before the test of the shape: a rejected identifier
  among the first 10 keeps its place there. Of \<^verbatim>\<open>badformat\<close> followed by 10
  identifiers that the agent resolves, the first 9 are analysed.
\<close>

lemma rejected_identifier_keeps_its_place:
  "map full_name (repositories (fst (process_request sample_platform
       (sample_specialist resolving_agent)
       \<lparr> req_repositories = ''badformat'' # take 10 fifteen_names,
         include_metrics = True \<rparr> 0)))
     = take 9 fifteen_names"
  by code_simp

text \<open>
  Claim C2, as amended. An identifier with no \<^verbatim>\<open>/\<close> gets no record, and the agent is
  not called for it (the outside world is unchanged). Processing of the other
  identifiers goes on unaffected: over any list of identifiers, the loop of
  \<^verbatim>\<open>process_request\<close> collects the records, and leaves the world, that it does over
  the list without the rejected identifiers; so the response for a request is the one
  for its first 10 identifiers without the rejected ones among them. An identifier
  with one or more \<^verbatim>\<open>/\<close> is split at the first one into owner and name, and the
  agent is asked for its details.
\<close>

theorem analyze_repository_separator:
  "(\<not> py_in ''/'' n \<longrightarrow> analyze_repository pf self n incl w = (None, w))
   \<and> analyze_loop pf self incl xs acc w
       = analyze_loop pf self incl (filter (py_in ''/'') xs) acc w
   \<and> process_request pf self request w =
       process_request pf self
         (request \<lparr> req_repositories :=
             filter (py_in ''/'') (take 10 (req_repositories request)) \<rparr>) w
   \<and> (py_in ''/'' m \<longrightarrow>
        analyze_repository pf self m incl w =
          (case run (agent self) (''Get GitHub repository details for '' @ m) w of
             (Inl e, w') \<Rightarrow> (None, w')
           | (Inr d, w') \<Rightarrow>
               (if truthy (data d)
                then build_repository pf m (takeWhile (\<lambda>c. c \<noteq> CHR ''/'') m)
                       (tl (dropWhile (\<lambda>c. c \<noteq> CHR ''/'') m)) (data d)
                else None, w')))"
  using analyze_repository_no_slash [of n pf self incl w]
        analyze_loop_filter [of pf self incl xs acc w]
        process_request_filter [of pf self request w]
        analyze_repository_slash [of m pf self incl w]
  by blast

theorem analyze_repository_separator_witness:
  "\<not> py_in ''/'' ''badformat''
   \<and> analyze_repository sample_platform (sample_specialist resolving_agent)
        ''badformat'' True 0 = (None, 0)
   \<and> analyze_loop sample_platform (sample_specialist resolving_agent) True
        [''badformat'', ''a/b'', ''x'', ''c/d''] [] 0
      = analyze_loop sample_platform (sample_specialist resolving_agent) True
        [''a/b'', ''c/d''] [] 0
   \<and> process_request sample_platform (sample_specialist resolving_agent)
        \<lparr> req_repositories = [''badformat'', ''a/b''], include_metrics = True \<rparr> 0
      = process_request sample_platform (sample_specialist resolving_agent)
        \<lparr> req_repositories = [''a/b''], include_metrics = True \<rparr> 0
   \<and> py_in ''/'' ''a/b''
   \<and> map_option full_name (fst (analyze_repository sample_platform
        (sample_specialist resolving_agent) ''a/b'' True 0)) = Some ''a/b''"
proof -
  let ?sa = "sample_specialist resolving_agent"
  let ?rq = "\<lparr> req_repositories = [''badformat'', ''a/b''], include_metrics = True \<rparr>"
  have a: "\<not> py_in ''/'' ''badformat''"
    by simp
  have b: "py_in ''/'' ''a/b''"
    by simp
  have c: "?rq \<lparr> req_repositories := filter (py_in ''/'') (take 10 (req_repositories ?rq)) \<rparr>
             = \<lparr> req_repositories = [''a/b''], include_metrics = True \<rparr>"
    by simp
  have c': "filter (py_in ''/'') [''badformat'', ''a/b'', ''x'', ''c/d''] = [''a/b'', ''c/d'']"
    by simp
  have d: "map_option full_name (fst (analyze_repository sample_platform ?sa ''a/b'' True 0))
             = Some ''a/b''"
    by code_simp
  note t = analyze_repository_separator [of "''badformat''" sample_platform ?sa True 0
              "[''badformat'', ''a/b'', ''x'', ''c/d'']" "[]" ?rq "''a/b''"]
  have e1: "analyze_repository sample_platform ?sa ''badformat'' True 0 = (None, 0)"
    using t [THEN conjunct1] a by (rule mp)
  have e2: "analyze_loop sample_platform ?sa True [''badformat'', ''a/b'', ''x'', ''c/d''] [] 0
          = analyze_loop sample_platform ?sa True
              (filter (py_in ''/'') [''badformat'', ''a/b'', ''x'', ''c/d'']) [] 0"
    by (rule t [THEN conjunct2, THEN conjunct1])
  have e3: "process_request sample_platform ?sa ?rq 0
          = process_request sample_platform ?sa
              (?rq \<lparr> req_repositories :=
                  filter (py_in ''/'') (take 10 (req_repositories ?rq)) \<rparr>) 0"
    by (rule t [THEN conjunct2, THEN conjunct2, THEN conjunct1])
  have e2': "analyze_loop sample_platform ?sa True [''badformat'', ''a/b'', ''x'', ''c/d''] [] 0
          = analyze_loop sample_platform ?sa True [''a/b'', ''c/d''] [] 0"
    using e2 unfolding c' .
  have e3': "process_request sample_platform ?sa ?rq 0
          = process_request sample_platform ?sa
              \<lparr> req_repositories = [''a/b''], include_metrics = True \<rparr> 0"
    using e3 unfolding c .
  show ?thesis
    by (intro conjI) (rule a e1 e2' e3' b d)+
qed

text \<open>
  Claim C2 as stated fails on \<^verbatim>\<open>a/b/c\<close>, which has two separators: the guard only
  rejects an identifier with none, and \<^verbatim>\<open>split("/", 1)\<close> gives the owner \<^verbatim>\<open>a\<close> and
  the name \<^verbatim>\<open>b/c\<close>, for which a record is returned.
\<close>

theorem analyze_repository_two_separators_counterexample:
  "count_list ''a/b/c'' CHR ''/'' \<noteq> 1
   \<and> map_option (\<lambda>r. (owner r, name r, full_name r))
        (fst (analyze_repository sample_platform (sample_specialist resolving_agent)
                ''a/b/c'' True 0))
      = Some (''a'', ''b/c'', ''a/b/c'')"
  by code_simp

section \<open>Delegation\<close>

lemma a2a_send_unknown_recipient:
  "recipient request \<noteq> ''specialist_agent'' \<Longrightarrow>
   a2a_send pf request manager w =
     (\<lparr> status = ''error'',
        result = JDict [(''error'',
                   JStr (''Unknown recipient or message type for '' @ recipient request))],
        correlation_id = req_correlation_id request \<rparr>, w)"
  by (simp add: a2a_send_def receive_a2a_message_def)

lemma a2a_send_status:
  "status (fst (a2a_send pf request manager w)) = ''ok''
   \<or> status (fst (a2a_send pf request manager w)) = ''error''"
  by (simp add: a2a_send_def split: prod.splits)

text \<open>
  A payload mapping without the key \<^verbatim>\<open>payload\<close>: the handler takes \<^verbatim>\<open>{}\<close> for
  \<^verbatim>\<open>message.get("payload", {})\<close> and then \<^verbatim>\<open>[]\<close> for the identifiers, whatever the
  mapping holds under \<^verbatim>\<open>repositories\<close>, and the agent is not called.
\<close>

lemma handle_delegation_flat_payload:
  "map_of kvs ''payload'' = None \<Longrightarrow>
   handle_delegation_from_entry pf sa (JDict kvs) w =
     (case RepoIntelRequest_new pf (JList []) of
        Inl e \<Rightarrow> (Inl e, w)
      | Inr r \<Rightarrow>
          (Inr (repo_intel_dict
                  \<lparr> repositories = [], total_repos = 0, analysis_timestamp = utcnow pf w,
                    insights = Some ''No repositories could be analyzed.'' \<rparr>), w))"
  by (auto simp: handle_delegation_from_entry_def get_or_raise_def RepoIntelRequest_new_def
                 process_request_def process_request_try_def Let_def
           split: sum.splits)

text \<open>
  Claim C3, on the message of the specification. An unknown recipient is answered with
  status \<^verbatim>\<open>error\<close>. Sent to the specialist agent, the payload
  \<^verbatim>\<open>{repositories: ["a/b"]}\<close> is answered with \<^verbatim>\<open>total_repos\<close> 0, no repositories and
  the agent never called (the world stays 0), although the same agent resolves
  \<^verbatim>\<open>a/b\<close> when \<^verbatim>\<open>process_request\<close> is given the identifier: there \<^verbatim>\<open>total_repos\<close>
  is 1.
\<close>

theorem a2a_send_delegation_drops_identifiers:
  "a2a_send sample_platform (sample_send ''unknown_agent'') (sample_manager sample_entry True) 0
     = (\<lparr> status = ''error'',
          result = JDict [(''error'',
                     JStr ''Unknown recipient or message type for unknown_agent'')],
          correlation_id = None \<rparr>, 0)
   \<and> a2a_send sample_platform (sample_send ''specialist_agent'')
        (sample_manager sample_entry True) 0
     = (\<lparr> status = ''ok'',
          result = JDict [(''repositories'', JList []), (''total_repos'', JInt 0),
                          (''analysis_timestamp'', JInt 0),
                          (''insights'', JStr ''No repositories could be analyzed.'')],
          correlation_id = None \<rparr>, 0)
   \<and> total_repos (fst (process_request sample_platform (sample_specialist resolving_agent)
        \<lparr> req_repositories = [''a/b''], include_metrics = True \<rparr> 0)) = 1"
  by code_simp

section \<open>Tools without a client\<close>

text \<open>
  Claim C4. When the registry has no client for the capability a tool needs, the tool
  returns a mapping with the one key \<^verbatim>\<open>error\<close>, whose text names the capability
  (Brave Search, Hacker News, GitHub), and the outside world is untouched. The tools
  return a value on every path, so nothing is raised to the caller.
\<close>

theorem tools_without_client:
  "(get_client mcp ''brave_search'' = None \<longrightarrow>
      search_brave pf mcp q freshness w
        = (JDict [(''error'', JStr ''Brave Search MCP client not available'')], w))
   \<and> (get_client mcp ''hacker_news'' = None \<longrightarrow>
      get_hacker_news_stories mcp story_type lim w
        = (JDict [(''error'', JStr ''Hacker News MCP client not available'')], w))
   \<and> (get_client mcp ''github'' = None \<longrightarrow>
      search_github_repos mcp q sort_by lim w
        = (JDict [(''error'', JStr ''GitHub MCP client not available'')], w)
      \<and> get_github_repo_details mcp owner_name repo w
        = (JDict [(''error'', JStr ''GitHub MCP client not available'')], w))"
  by (simp add: search_brave_def get_hacker_news_stories_def search_github_repos_def
                get_github_repo_details_def)

theorem tools_without_client_witness:
  "get_client empty_registry ''brave_search'' = None
   \<and> get_client empty_registry ''hacker_news'' = None
   \<and> get_client empty_registry ''github'' = None
   \<and> search_brave sample_platform empty_registry ''rust'' ''pm'' 0
        = (JDict [(''error'', JStr ''Brave Search MCP client not available'')], 0)
   \<and> get_hacker_news_stories empty_registry ''top'' 10 0
        = (JDict [(''error'', JStr ''Hacker News MCP client not available'')], 0)
   \<and> search_github_repos empty_registry ''rust'' ''stars'' 10 0
        = (JDict [(''error'', JStr ''GitHub MCP client not available'')], 0)
   \<and> get_github_repo_details empty_registry ''a'' ''b'' 0
        = (JDict [(''error'', JStr ''GitHub MCP client not available'')], 0)"
proof -
  have a: "get_client empty_registry ''brave_search'' = None"
    and b: "get_client empty_registry ''hacker_news'' = None"
    and c: "get_client empty_registry ''github'' = None"
    by (simp_all add: empty_registry_def)
  show ?thesis
    using a b c tools_without_client [of empty_registry sample_platform "''rust''" "''pm''" 0
        "''top''" 10 "''stars''" "''a''" "''b''"]
    by simp
qed

section \<open>The manager before initialisation\<close>

text \<open>
  Claim C5. While \<^verbatim>\<open>initialized\<close> is false, each of the four request-level operations
  raises \<^verbatim>\<open>RuntimeError("Agent manager not initialized")\<close> and leaves the outside world
  as it was: no agent is run and no tool is called. The dependency
  \<^verbatim>\<open>get_agent_manager\<close> answers the endpoints with status 503 in that state.
\<close>

theorem not_initialized_fails_fast:
  "\<not> initialized self \<Longrightarrow>
     process_tech_trends_request self trends_req w
       = (Inl (RuntimeError ''Agent manager not initialized''), w)
   \<and> route_user_intent pf self input_text lim hn brave w
       = (Inl (RuntimeError ''Agent manager not initialized''), w)
   \<and> process_repo_intel_request pf self repo_req w
       = (Inl (RuntimeError ''Agent manager not initialized''), w)
   \<and> process_combined_analysis_request pf self combined_req w
       = (Inl (RuntimeError ''Agent manager not initialized''), w)
   \<and> get_agent_manager self = Inl (HTTPException 503 ''Agent manager not initialized'')"
  by (simp add: process_tech_trends_request_def route_user_intent_def
                process_repo_intel_request_def process_combined_analysis_request_def
                get_agent_manager_def raises_def not_initialized_def)

theorem not_initialized_fails_fast_witness:
  "\<not> initialized (sample_manager sample_entry False)
   \<and> process_tech_trends_request (sample_manager sample_entry False)
        \<lparr> query = ''rust'', limit = 10, include_hn = None, include_brave = None \<rparr> 0
       = (Inl (RuntimeError ''Agent manager not initialized''), 0)
   \<and> route_user_intent sample_platform (sample_manager sample_entry False)
        ''rust'' 10 True True 0
       = (Inl (RuntimeError ''Agent manager not initialized''), 0)
   \<and> process_repo_intel_request sample_platform (sample_manager sample_entry False)
        \<lparr> req_repositories = [''a/b''], include_metrics = True \<rparr> 0
       = (Inl (RuntimeError ''Agent manager not initialized''), 0)
   \<and> process_combined_analysis_request sample_platform (sample_manager sample_entry False)
        \<lparr> cq_query = ''rust'', trend_limit = 5, auto_detect_repos = True \<rparr> 0
       = (Inl (RuntimeError ''Agent manager not initialized''), 0)"
proof -
  have a: "\<not> initialized (sample_manager sample_entry False)"
    by (simp add: sample_manager_def)
  show ?thesis
    using a not_initialized_fails_fast [OF a,
        of "\<lparr> query = ''rust'', limit = 10, include_hn = None, include_brave = None \<rparr>" 0
           sample_platform "''rust''" 10 True True
           "\<lparr> req_repositories = [''a/b''], include_metrics = True \<rparr>"
           "\<lparr> cq_query = ''rust'', trend_limit = 5, auto_detect_repos = True \<rparr>"]
    by simp
qed

section \<open>Health of the manager\<close>

text \<open>
  Claim C6, as amended. With its four components present, \<^verbatim>\<open>health_check\<close> gathers
  the probes of the entry agent, the specialist agent, the registry and the A2A service
  in one mapping when every probe returns. When a probe raises, \<^verbatim>\<open>health_check\<close>
  raises that exception: no mapping is returned and the probes after it are not run.
\<close>

theorem health_check_aggregates_or_raises:
  "entry_agent self = Some ea \<Longrightarrow> specialist_agent self = Some sa \<Longrightarrow>
   mcp_manager self = Some mm \<Longrightarrow> a2a_service self = Some svc \<Longrightarrow>
     (entry_health_check ea w = (Inr h1, w1) \<longrightarrow> health_check_all mm w1 = (Inr h3, w3) \<longrightarrow>
      a2a_health_check svc w3 = (Inr h4, w4) \<longrightarrow>
        health_check pf self w =
          (Inr (health_status_dict (initialized self)
                  [(''entry_agent'', h1),
                   (''specialist_agent'', specialist_health_check pf sa w1)]
                  h3 h4 (utcnow pf w)), w4))
   \<and> (entry_health_check ea w = (Inl e, w1) \<longrightarrow> health_check pf self w = (Inl e, w1))
   \<and> (entry_health_check ea w = (Inr h1, w1) \<longrightarrow> health_check_all mm w1 = (Inl e, w3) \<longrightarrow>
        health_check pf self w = (Inl e, w3))
   \<and> (entry_health_check ea w = (Inr h1, w1) \<longrightarrow> health_check_all mm w1 = (Inr h3, w3) \<longrightarrow>
      a2a_health_check svc w3 = (Inl e, w4) \<longrightarrow> health_check pf self w = (Inl e, w4))"
  by (simp add: health_check_def and_then_def returns_def)

theorem health_check_aggregates_or_raises_witness:
  "health_check sample_platform (sample_manager sample_entry True) 0
     = (Inr (health_status_dict True
               [(''entry_agent'', JDict [(''status'', JStr ''healthy'')]),
                (''specialist_agent'',
                 specialist_health_check sample_platform (sample_specialist resolving_agent) 1)]
               (JDict [(''github'', JBool False)]) (JDict [(''running'', JBool True)]) 0), 3)
   \<and> health_check sample_platform (sample_manager faulty_entry True) 0
     = (Inl (OtherError ''probe failed''), 1)
   \<and> health_check sample_platform
        ((sample_manager sample_entry True) \<lparr> mcp_manager := Some faulty_registry \<rparr>) 0
     = (Inl (OtherError ''registry down''), 2)
   \<and> health_check sample_platform
        ((sample_manager sample_entry True) \<lparr> a2a_service := Some faulty_a2a \<rparr>) 0
     = (Inl (OtherError ''a2a down''), 3)"
proof -
  let ?m = "sample_manager sample_entry True"
  let ?sa = "sample_specialist resolving_agent"
  have e1: "entry_health_check sample_entry 0 = (Inr (JDict [(''status'', JStr ''healthy'')]), 1)"
    by (simp add: sample_entry_def)
  have e2: "entry_health_check faulty_entry 0 = (Inl (OtherError ''probe failed''), 1)"
    by (simp add: faulty_entry_def sample_entry_def)
  have r1: "health_check_all empty_registry 1 = (Inr (JDict [(''github'', JBool False)]), 2)"
    by (simp add: empty_registry_def)
  have r2: "health_check_all faulty_registry 1 = (Inl (OtherError ''registry down''), 2)"
    by (simp add: faulty_registry_def empty_registry_def)
  have s1: "a2a_health_check sample_a2a 2 = (Inr (JDict [(''running'', JBool True)]), 3)"
    by (simp add: sample_a2a_def)
  have s2: "a2a_health_check faulty_a2a 2 = (Inl (OtherError ''a2a down''), 3)"
    by (simp add: faulty_a2a_def)
  have c1: "health_check sample_platform ?m 0
     = (Inr (health_status_dict True
               [(''entry_agent'', JDict [(''status'', JStr ''healthy'')]),
                (''specialist_agent'', specialist_health_check sample_platform ?sa 1)]
               (JDict [(''github'', JBool False)]) (JDict [(''running'', JBool True)]) 0), 3)"
    using e1 r1 s1
      health_check_aggregates_or_raises [of ?m sample_entry ?sa empty_registry sample_a2a
        0 "JDict [(''status'', JStr ''healthy'')]" 1 "JDict [(''github'', JBool False)]" 2
        "JDict [(''running'', JBool True)]" 3 sample_platform]
    by (simp add: sample_manager_def sample_platform_def)
  have c2: "health_check sample_platform (sample_manager faulty_entry True) 0
     = (Inl (OtherError ''probe failed''), 1)"
    using e2
      health_check_aggregates_or_raises [of "sample_manager faulty_entry True" faulty_entry ?sa
        empty_registry sample_a2a 0 _ 1 _ _ _ _ _ "OtherError ''probe failed''"]
    by (simp add: sample_manager_def)
  have c3: "health_check sample_platform (?m \<lparr> mcp_manager := Some faulty_registry \<rparr>) 0
     = (Inl (OtherError ''registry down''), 2)"
    using e1 r2
      health_check_aggregates_or_raises [of "?m \<lparr> mcp_manager := Some faulty_registry \<rparr>"
        sample_entry ?sa faulty_registry sample_a2a 0 "JDict [(''status'', JStr ''healthy'')]" 1
        _ 2 _ _ _ "OtherError ''registry down''"]
    by (simp add: sample_manager_def)
  have c4: "health_check sample_platform (?m \<lparr> a2a_service := Some faulty_a2a \<rparr>) 0
     = (Inl (OtherError ''a2a down''), 3)"
    using e1 r1 s2
      health_check_aggregates_or_raises [of "?m \<lparr> a2a_service := Some faulty_a2a \<rparr>"
        sample_entry ?sa empty_registry faulty_a2a 0 "JDict [(''status'', JStr ''healthy'')]" 1
        "JDict [(''github'', JBool False)]" 2 _ 3 _ "OtherError ''a2a down''"]
    by (simp add: sample_manager_def)
  show ?thesis
    using c1 c2 c3 c4 by simp
qed

text \<open>
  Claim C6 as stated fails when the probe of the entry agent raises: \<^verbatim>\<open>health_check\<close>
  raises in its turn, and the probes of the specialist agent, the registry and the A2A
  service are not collected (the world has counted one call only).
\<close>

theorem health_check_fault_counterexample:
  "health_check sample_platform (sample_manager faulty_entry True) 0
     = (Inl (OtherError ''probe failed''), 1)"
  by code_simp

section \<open>Combined analysis\<close>

lemma combined_ignores_specialist:
  "process_combined_analysis_request pf (self \<lparr> specialist_agent := Some sa' \<rparr>) request w
     = (case specialist_agent self of
          None \<Rightarrow>
            process_combined_analysis_request pf (self \<lparr> specialist_agent := Some sa' \<rparr>) request w
        | Some sa \<Rightarrow> process_combined_analysis_request pf self request w)"
  by (simp add: process_combined_analysis_request_def Let_def and_then_def returns_def raises_def
                empty_repo_intel_def
           split: option.splits sum.splits prod.splits)

text \<open>
  On an initialised manager with both agents, once the trend pipeline has returned, the
  construction of the empty repository section raises and the combined analysis raises
  with it, in the world the trend pipeline left.
\<close>

lemma combined_analysis_raises_after_trends:
  "initialized self \<Longrightarrow> entry_agent self = Some ea \<Longrightarrow> specialist_agent self = Some sa \<Longrightarrow>
   trends_request_ok pf
     \<lparr> query = cq_query request, limit = trend_limit request,
       include_hn = None, include_brave = None \<rparr> \<Longrightarrow>
   entry_process_request ea
     \<lparr> query = cq_query request, limit = trend_limit request,
       include_hn = None, include_brave = None \<rparr> w = (Inr t, w') \<Longrightarrow>
   process_combined_analysis_request pf self request w
     = (Inl (ValidationError ''validation error for RepoIntelResponse''), w')"
  by (simp add: process_combined_analysis_request_def TechTrendsRequest_new_def
                empty_repo_intel_def Let_def and_then_def returns_def raises_def)

text \<open>No manager, request or world makes the combined analysis return a response.\<close>

lemma combined_analysis_never_returns:
  "fst (process_combined_analysis_request pf self request w) \<noteq> Inr r"
  by (auto simp: process_combined_analysis_request_def TechTrendsRequest_new_def
                 empty_repo_intel_def Let_def and_then_def returns_def raises_def
           split: option.splits sum.splits prod.splits if_splits)

text \<open>
  Claim C7, on an initialised manager whose trend pipeline returns, for a request in
  which no repository is detected. The claim asks for the output of the trend pipeline
  with an empty repository section. The code builds that section with
  \<^verbatim>\<open>RepoIntelResponse(repositories=[], total_repos=0, analysis_timestamp=...)\<close>, which
  leaves the required field \<^verbatim>\<open>insights\<close> out: the operation raises pydantic's
  \<^verbatim>\<open>ValidationError\<close> after the trend pipeline has run (the world has counted its one
  call) and returns no response.
\<close>

theorem combined_analysis_raises_validation_error:
  "process_combined_analysis_request sample_platform (sample_manager sample_entry True)
       \<lparr> cq_query = ''rust'', trend_limit = 5, auto_detect_repos = False \<rparr> 0
     = (Inl (ValidationError ''validation error for RepoIntelResponse''), 1)"
  by code_simp

end
